theory Spec2Isabelle
  imports Main
begin

section \<open>Planning-poker room: data model\<close>

text \<open>
  The enumerations and interfaces of \<^verbatim>\<open>types.ts\<close> and of
  \<^verbatim>\<open>hooks/useSupabaseRoom.tsx\<close>. Field names that occur in more than one
  interface carry a prefix: \<open>p_\<close> for \<^verbatim>\<open>Player\<close>, \<open>v_\<close> for \<^verbatim>\<open>Vote\<close>,
  \<open>s_\<close> for \<^verbatim>\<open>Story\<close>, \<open>persona_\<close> for \<^verbatim>\<open>AiPersona\<close>, and the table name for
  the columns of a database row.
\<close>

datatype UserType = HUMAN | AI

datatype GamePhase = SETUP | VOTING | REVEALED

record Player =
  p_id :: string
  p_name :: string
  p_type :: UserType
  p_avatarUrl :: string
  p_persona :: "string option"

text \<open>
  A vote value is \<^verbatim>\<open>number | string\<close>. The numbers that reach the hook are cards of
  the deck and points returned by the estimate adapter, all of them integers, so the
  numeric alternative carries an \<^typ>\<open>int\<close>.
\<close>

datatype vote_value = Num int | Str string

record Vote =
  v_playerId :: string
  v_value :: vote_value
  v_reasoning :: "string option"

record Story =
  s_title :: string
  s_description :: string

text \<open>
  \<^verbatim>\<open>votes: Record<string, Vote>\<close> is a finite dictionary with one slot per key: a
  partial map. Only own properties are modelled; player ids are not names of members of
  \<^verbatim>\<open>Object.prototype\<close>.
\<close>

record RoomState =
  roomId :: string
  story :: Story
  phase :: GamePhase
  players :: "Player list"
  votes :: "string \<rightharpoonup> Vote"



subsection \<open>Rows of the durable store and its change feed\<close>

text \<open>
  The columns of \<^verbatim>\<open>001_initial_schema.sql\<close> without the timestamps. Columns without
  \<^verbatim>\<open>NOT NULL\<close> are optional; \<^verbatim>\<open>votes.value\<close> is \<^verbatim>\<open>TEXT NOT NULL\<close>, a string.
\<close>

record rooms_row =
  rooms_id :: string
  rooms_story_title :: "string option"
  rooms_story_description :: "string option"
  rooms_phase :: "GamePhase option"

record players_row =
  players_id :: string
  players_room_id :: string
  players_name :: string
  players_type :: UserType
  players_avatar_url :: string
  players_persona :: "string option"

record votes_row =
  votes_id :: string
  votes_room_id :: string
  votes_player_id :: string
  votes_value :: string
  votes_reasoning :: "string option"

text \<open>
  A payload of the \<^verbatim>\<open>postgres_changes\<close> subscription: the table, the event type and
  the part of the payload the handler reads (\<^verbatim>\<open>payload.new\<close> for inserts and updates,
  \<^verbatim>\<open>payload.old.id\<close> and \<^verbatim>\<open>payload.old.player_id\<close> for deletions). The rooms
  subscription listens to \<^verbatim>\<open>UPDATE\<close> only.
\<close>

datatype change_event =
    RoomsUpdate rooms_row
  | PlayersInsert players_row
  | PlayersUpdate players_row
  | PlayersDelete string
  | VotesInsert votes_row
  | VotesUpdate votes_row
  | VotesDelete string

text \<open>The writes the hook sends to the store, one constructor per call chain.\<close>

datatype db_op =
    RoomsUpdateStory string string string
      \<comment> \<open>\<^verbatim>\<open>from('rooms').update({story_title, story_description}).eq('id', roomId)\<close>\<close>
  | RoomsUpdatePhase string GamePhase
      \<comment> \<open>\<^verbatim>\<open>from('rooms').update({phase}).eq('id', roomId)\<close>\<close>
  | VotesDeleteRoom string
      \<comment> \<open>\<^verbatim>\<open>from('votes').delete().eq('room_id', roomId)\<close>\<close>
  | VotesUpsert votes_row
      \<comment> \<open>\<^verbatim>\<open>from('votes').upsert({...})\<close>\<close>

section \<open>The estimate adapter \<^verbatim>\<open>services/geminiService.jsx\<close>\<close>

text \<open>
  \<^verbatim>\<open>x || ''\<close> on a string that may be null or undefined: both, and the empty string,
  give \<^verbatim>\<open>''\<close>.
\<close>

definition or_empty :: "string option \<Rightarrow> string" where
  "or_empty x = (case x of None \<Rightarrow> '''' | Some t \<Rightarrow> t)"

text \<open>
  JavaScript numbers are modelled as exact numbers of an ordered ring \<open>'a\<close> (integers,
  rationals, reals): rounding, infinities and NaN arithmetic of doubles are not part of
  the model, except that a value whose numeric conversion is NaN is written \<open>None\<close>.
\<close>

record 'a AiVote =
  points :: 'a
  reasoning :: "string option"

datatype js_error = Error string | SyntaxError | TypeError | RequestFailed

text \<open>
  \<^verbatim>\<open>client.models.generateContent(...)\<close> either rejects or resolves with a response
  whose \<^verbatim>\<open>text\<close> is a string or undefined. Model and config are constants, so a client
  is a function of the prompt.
\<close>

datatype reply = Rejects | Response "string option"

type_synonym client = "string \<Rightarrow> reply"

text \<open>
  What the two property reads \<^verbatim>\<open>result.points\<close> and \<^verbatim>\<open>result.reasoning\<close> see of the
  value \<^verbatim>\<open>JSON.parse\<close> returned: \<^verbatim>\<open>null\<close>, on which a property read throws, or a value
  whose \<^verbatim>\<open>points\<close> is a number (\<open>Some x\<close>) or converts to NaN (\<open>None\<close>: absent,
  non-numeric), and whose \<^verbatim>\<open>reasoning\<close> is a string or absent. Non-numbers that convert
  to a number (numeric strings, booleans, null) are outside the model: the response
  schema asks for a number.
\<close>

datatype 'a payload = PNull | PValue "'a option" "string option"

text \<open>
  The surroundings of the adapter: the module variable \<^verbatim>\<open>aiClient\<close>, the value of
  \<^verbatim>\<open>process.env.API_KEY\<close> (\<open>None\<close> when it cannot be read or is undefined), the
  constructor \<^verbatim>\<open>new GoogleGenAI({apiKey})\<close> (\<open>None\<close> when it throws) and
  \<^verbatim>\<open>JSON.parse\<close> (\<open>None\<close> when it throws).
\<close>

record 'a adapter_env =
  aiClient :: "client option"
  API_KEY :: "string option"
  GoogleGenAI :: "string \<Rightarrow> client option"
  JSON_parse :: "string \<Rightarrow> 'a payload option"

definition getClient :: "'a adapter_env \<Rightarrow> client option \<times> 'a adapter_env" where
  "getClient env =
     (case aiClient env of
        Some c \<Rightarrow> (Some c, env)
      | None \<Rightarrow>
          (let apiKey = or_empty (API_KEY env) in
           if apiKey = '''' then (None, env)
           else (case GoogleGenAI env apiKey of
                   None \<Rightarrow> (None, env)
                 | Some c \<Rightarrow> (Some c, env\<lparr>aiClient := Some c\<rparr>))))"

text \<open>
  \<^verbatim>\<open>String.prototype.trim\<close> on strings of one-byte characters: tab, line feed, vertical
  tab, form feed, carriage return, space and no-break space are white space.
\<close>

definition is_whitespace :: "char \<Rightarrow> bool" where
  "is_whitespace c \<longleftrightarrow> of_char c \<in> {9, 10, 11, 12, 13, 32, 160 :: nat}"

definition trim :: "string \<Rightarrow> string" where
  "trim s = rev (dropWhile is_whitespace (rev (dropWhile is_whitespace s)))"

definition validPoints :: "'a::linordered_idom list" where
  "validPoints = [1, 2, 3, 5, 8, 13, 21]"

text \<open>\<^verbatim>\<open>Array.prototype.includes\<close>: a value that is not a number is never found.\<close>

definition array_includes :: "'a list \<Rightarrow> 'a option \<Rightarrow> bool" where
  "array_includes xs p = (case p of None \<Rightarrow> False | Some x \<Rightarrow> x \<in> set xs)"

text \<open>
  \<^verbatim>\<open>Array.prototype.reduce\<close> without an initial value: the first element starts the
  accumulator; an empty array throws a TypeError.
\<close>

fun reduce :: "('a \<Rightarrow> 'a \<Rightarrow> 'a) \<Rightarrow> 'a list \<Rightarrow> js_error + 'a" where
  "reduce f [] = Inl TypeError"
| "reduce f (x # xs) = Inr (foldl f x xs)"

text \<open>
  The callback \<^verbatim>\<open>(prev, curr) => Math.abs(curr - points) < Math.abs(prev - points) ? curr : prev\<close>;
  a comparison with NaN is false.
\<close>

fun closer :: "'a::linordered_idom option \<Rightarrow> 'a \<Rightarrow> 'a \<Rightarrow> 'a" where
  "closer None prev cur = prev"
| "closer (Some p) prev cur = (if \<bar>cur - p\<bar> < \<bar>prev - p\<bar> then cur else prev)"

text \<open>
  Lines 96 to 102: the points the adapter returns for \<^verbatim>\<open>result.points\<close>. A value that
  \<^verbatim>\<open>includes\<close> finds is a number and is returned as it is; the last case cannot occur.
\<close>

definition snapPoints :: "'a::linordered_idom option \<Rightarrow> js_error + 'a" where
  "snapPoints pts =
     (if \<not> array_includes validPoints pts then reduce (closer pts) validPoints
      else (case pts of Some x \<Rightarrow> Inr x | None \<Rightarrow> Inl TypeError))"

definition prompt :: "Story \<Rightarrow> string \<Rightarrow> string \<Rightarrow> string" where
  "prompt st personaName personaRole =
     CHR 0x0A # concat (map (\<lambda>l. l @ [CHR 0x0A])
       [''    You are participating in a Planning Poker session for software estimation.'',
        '''',
        ''    Your Persona:'',
        ''    Name: '' @ personaName,
        ''    Role: '' @ personaRole,
        '''',
        ''    The Story to Estimate:'',
        ''    Title: \"'' @ s_title st @ ''\"'',
        ''    Description: \"'' @ s_description st @ ''\"'',
        '''',
        ''    Task:'',
        ''    1. Analyze the complexity of the story based on your persona's perspective.'',
        ''    2. Select a Story Point value from the Fibonacci sequence: [1, 2, 3, 5, 8, 13, 21].'',
        ''       - 1-3: Simple, well-understood tasks.'',
        ''       - 5-8: Medium complexity, some unknowns or significant effort.'',
        ''       - 13-21: High complexity, high risk, or too large (needs splitting).'',
        ''    3. Provide a short, one-sentence reasoning for your vote, sounding like your persona.'',
        '''',
        ''    Return JSON format.'']) @ ''  ''"

text \<open>The three rationale texts of \<^verbatim>\<open>generateAiVote\<close>.\<close>

definition noContextReasoning :: string where
  "noContextReasoning =
     ''I don't have any context on the story, so I'm providing a random estimate to participate.''"

definition offlineReasoning :: string where
  "offlineReasoning =
     ''I'm currently offline (API Key missing), but this looks like a medium effort task.''"

definition troubleReasoning :: string where
  "troubleReasoning = ''I'm having trouble connecting to my brain, but this feels complex.''"

text \<open>The body of the \<^verbatim>\<open>try\<close> block: \<open>Inl\<close> is a thrown error.\<close>

definition generateAiVote_try ::
  "'a::linordered_idom adapter_env \<Rightarrow> client \<Rightarrow> Story \<Rightarrow> string \<Rightarrow> string \<Rightarrow> js_error + 'a AiVote" where
  "generateAiVote_try env cl st personaName personaRole =
     (case cl (prompt st personaName personaRole) of
        Rejects \<Rightarrow> Inl RequestFailed
      | Response text \<Rightarrow>
          (let jsonText = or_empty text in
           if jsonText = '''' then Inl (Error ''No response from Gemini'')
           else (case JSON_parse env jsonText of
                   None \<Rightarrow> Inl SyntaxError
                 | Some PNull \<Rightarrow> Inl TypeError
                 | Some (PValue pts rsn) \<Rightarrow>
                     (case snapPoints pts of
                        Inl err \<Rightarrow> Inl err
                      | Inr p \<Rightarrow> Inr \<lparr>points = p, reasoning = rsn\<rparr>))))"

text \<open>
  \<open>draw\<close> stands for the random draw: \<^verbatim>\<open>Math.floor(Math.random() * cards.length)\<close> is
  an index below \<^verbatim>\<open>cards.length\<close>, here \<open>draw mod length cards\<close>. The result is
  \<open>Inr\<close> when the promise resolves and \<open>Inl\<close> when it rejects.
\<close>

definition generateAiVote ::
  "'a::linordered_idom adapter_env \<Rightarrow> nat \<Rightarrow> Story \<Rightarrow> string \<Rightarrow> string
     \<Rightarrow> (js_error + 'a AiVote) \<times> 'a adapter_env" where
  "generateAiVote env draw st personaName personaRole =
     (if trim (s_title st) = '''' \<and> trim (s_description st) = '''' then
        (let cards = [1, 2, 3, 5, 8, 13, 21];
             pts = cards ! (draw mod length cards)
         in (Inr \<lparr>points = pts,
                  reasoning = Some noContextReasoning\<rparr>,
             env))
      else
        (case getClient env of
           (None, env') \<Rightarrow>
             (Inr \<lparr>points = 8,
                   reasoning = Some offlineReasoning\<rparr>,
              env')
         | (Some cl, env') \<Rightarrow>
             (case generateAiVote_try env' cl st personaName personaRole of
                Inr result \<Rightarrow> (Inr result, env')
              | Inl error \<Rightarrow>
                  (Inr \<lparr>points = 8,
                        reasoning = Some troubleReasoning\<rparr>,
                   env'))))"

section \<open>The hook \<^verbatim>\<open>useSupabaseRoom\<close>\<close>

text \<open>
  The React state of the hook: \<^verbatim>\<open>currentUser\<close>, \<^verbatim>\<open>roomState\<close> and
  \<^verbatim>\<open>isProcessingAI\<close> (\<^verbatim>\<open>copied\<close> belongs to the clipboard button and is left out).
  The argument \<^verbatim>\<open>roomId\<close> of the hook is passed to each operation as \<open>rid\<close>.
\<close>

record HookState =
  currentUser :: "Player option"
  roomState :: RoomState
  isProcessingAI :: bool

definition initialRoomState :: RoomState where
  "initialRoomState =
     \<lparr>roomId = '''', story = \<lparr>s_title = '''', s_description = ''''\<rparr>, phase = SETUP,
      players = [], votes = Map.empty\<rparr>"

subsection \<open>Applying change events\<close>

definition player_of_row :: "players_row \<Rightarrow> Player" where
  "player_of_row r =
     \<lparr>p_id = players_id r, p_name = players_name r, p_type = players_type r,
      p_avatarUrl = players_avatar_url r, p_persona = players_persona r\<rparr>"

definition vote_of_row :: "votes_row \<Rightarrow> Vote" where
  "vote_of_row r =
     \<lparr>v_playerId = votes_player_id r, v_value = Str (votes_value r),
      v_reasoning = votes_reasoning r\<rparr>"

text \<open>
  \<^verbatim>\<open>Object.fromEntries(Object.entries(votes).filter(([_, v]) => v.playerId !== deletedId))\<close>:
  an entry stays when the \<^verbatim>\<open>playerId\<close> stored in its value differs from the deleted id.
\<close>

definition filter_votes :: "string \<Rightarrow> (string \<rightharpoonup> Vote) \<Rightarrow> (string \<rightharpoonup> Vote)" where
  "filter_votes deletedId m =
     (\<lambda>k. case m k of None \<Rightarrow> None
          | Some v \<Rightarrow> if v_playerId v \<noteq> deletedId then Some v else None)"

text \<open>
  The three subscription callbacks as one reducer. \<open>rid\<close> is the \<^verbatim>\<open>roomId\<close> of the
  enclosing effect. A players \<^verbatim>\<open>UPDATE\<close> matches neither branch of its handler.
\<close>

fun applyChange :: "string \<Rightarrow> change_event \<Rightarrow> RoomState \<Rightarrow> RoomState" where
  "applyChange rid (RoomsUpdate newRoom) prev =
     prev\<lparr>roomId := rid,
          story := \<lparr>s_title = or_empty (rooms_story_title newRoom),
                    s_description = or_empty (rooms_story_description newRoom)\<rparr>,
          phase := (case rooms_phase newRoom of None \<Rightarrow> phase prev | Some ph \<Rightarrow> ph)\<rparr>"
| "applyChange rid (PlayersInsert newPlayer) prev =
     prev\<lparr>players := players prev @ [player_of_row newPlayer]\<rparr>"
| "applyChange rid (PlayersUpdate newPlayer) prev = prev"
| "applyChange rid (PlayersDelete deletedId) prev =
     prev\<lparr>players := filter (\<lambda>p. p_id p \<noteq> deletedId) (players prev),
          votes := filter_votes deletedId (votes prev)\<rparr>"
| "applyChange rid (VotesInsert newVote) prev =
     prev\<lparr>votes := (votes prev)(votes_player_id newVote \<mapsto> vote_of_row newVote)\<rparr>"
| "applyChange rid (VotesUpdate newVote) prev =
     prev\<lparr>votes := (votes prev)(votes_player_id newVote \<mapsto> vote_of_row newVote)\<rparr>"
| "applyChange rid (VotesDelete deletedPlayerId) prev =
     prev\<lparr>votes := (votes prev)(deletedPlayerId := None)\<rparr>"

definition applyChanges :: "string \<Rightarrow> change_event list \<Rightarrow> RoomState \<Rightarrow> RoomState" where
  "applyChanges rid evs s = foldl (\<lambda>st ev. applyChange rid ev st) s evs"

subsection \<open>The state writes of \<^verbatim>\<open>loadRoomData\<close>\<close>

text \<open>
  \<^verbatim>\<open>loadRoomData\<close> writes the projection three times: the room row that was found, the
  fetched players, the fetched votes (assigned one by one into a fresh object). \<open>ph\<close> is
  \<^verbatim>\<open>roomData.phase\<close>, which the source casts to a phase without a default.
\<close>

definition loadRoomData_room :: "string \<Rightarrow> rooms_row \<Rightarrow> GamePhase \<Rightarrow> RoomState \<Rightarrow> RoomState" where
  "loadRoomData_room rid roomData ph prev =
     prev\<lparr>roomId := rid,
          story := \<lparr>s_title = or_empty (rooms_story_title roomData),
                    s_description = or_empty (rooms_story_description roomData)\<rparr>,
          phase := ph\<rparr>"

definition loadRoomData_players :: "players_row list \<Rightarrow> RoomState \<Rightarrow> RoomState" where
  "loadRoomData_players playersData prev = prev\<lparr>players := map player_of_row playersData\<rparr>"

definition loadRoomData_votes :: "votes_row list \<Rightarrow> RoomState \<Rightarrow> RoomState" where
  "loadRoomData_votes votesData prev =
     prev\<lparr>votes := foldl (\<lambda>m v. m(votes_player_id v \<mapsto> vote_of_row v)) Map.empty votesData\<rparr>"

subsection \<open>Mutation operations\<close>

text \<open>
  Each operation returns the hook state after its synchronous \<^verbatim>\<open>setRoomState\<close> calls
  and the store writes it awaits, in order. \<^verbatim>\<open>updateStory\<close> and \<^verbatim>\<open>handleVote\<close>
  contain no \<^verbatim>\<open>setRoomState\<close> call.
\<close>

definition updateStory :: "string \<Rightarrow> Story \<Rightarrow> HookState \<Rightarrow> HookState \<times> db_op list" where
  "updateStory rid st hs = (hs, [RoomsUpdateStory rid (s_title st) (s_description st)])"

definition updatePhase :: "string \<Rightarrow> GamePhase \<Rightarrow> HookState \<Rightarrow> HookState \<times> db_op list" where
  "updatePhase rid ph hs =
     (hs\<lparr>roomState :=
          (roomState hs)\<lparr>phase := ph,
                         votes := (if ph = VOTING then Map.empty else votes (roomState hs))\<rparr>\<rparr>,
      RoomsUpdatePhase rid ph # (if ph = VOTING then [VotesDeleteRoom rid] else []))"

text \<open>
  \<^verbatim>\<open>Number.prototype.toString()\<close> on an integer: its decimal digits, with a minus
  sign when negative; \<^verbatim>\<open>String.prototype.toString()\<close> is the identity.
\<close>

definition digit_char :: "nat \<Rightarrow> char" where
  "digit_char d = ''0123456789'' ! d"

fun digits :: "nat \<Rightarrow> string" where
  "digits n = (if n < 10 then [digit_char n] else digits (n div 10) @ [digit_char (n mod 10)])"

definition number_toString :: "int \<Rightarrow> string" where
  "number_toString n = (if n < 0 then CHR ''-'' # digits (nat (- n)) else digits (nat n))"

fun toString :: "vote_value \<Rightarrow> string" where
  "toString (Num n) = number_toString n"
| "toString (Str s) = s"

text \<open>The template literal \<^verbatim>\<open>`${roomId}-${player.id}`\<close>.\<close>

definition vote_row_id :: "string \<Rightarrow> string \<Rightarrow> string" where
  "vote_row_id rid pid = rid @ ''-'' @ pid"

definition handleVote :: "string \<Rightarrow> vote_value \<Rightarrow> HookState \<Rightarrow> HookState \<times> db_op list" where
  "handleVote rid val hs =
     (case currentUser hs of
        None \<Rightarrow> (hs, [])
      | Some u \<Rightarrow>
          if phase (roomState hs) \<noteq> VOTING then (hs, [])
          else (hs, [VotesUpsert \<lparr>votes_id = vote_row_id rid (p_id u), votes_room_id = rid,
                                  votes_player_id = p_id u, votes_value = toString val,
                                  votes_reasoning = None\<rparr>]))"

subsection \<open>Derived query\<close>


subsection \<open>Simulated participants\<close>









section \<open>Reachable projections and event sequences\<close>

text \<open>
  The projections the hook can hold for a room: the initial state, and whatever a
  \<^verbatim>\<open>setRoomState\<close> call of the hook makes of a reachable one (a change event, the three
  writes of \<^verbatim>\<open>loadRoomData\<close>, the local write of \<^verbatim>\<open>updatePhase\<close>).
\<close>

inductive reachable :: "string \<Rightarrow> RoomState \<Rightarrow> bool" for rid :: string where
  reachable_initial: "reachable rid initialRoomState"
| reachable_change: "reachable rid s \<Longrightarrow> reachable rid (applyChange rid ev s)"
| reachable_load_room: "reachable rid s \<Longrightarrow> reachable rid (loadRoomData_room rid roomData ph s)"
| reachable_load_players: "reachable rid s \<Longrightarrow> reachable rid (loadRoomData_players playersData s)"
| reachable_load_votes: "reachable rid s \<Longrightarrow> reachable rid (loadRoomData_votes votesData s)"
| reachable_updatePhase:
    "reachable rid (roomState hs) \<Longrightarrow> reachable rid (roomState (fst (updatePhase rid ph hs)))"

text \<open>Every entry of the estimate map is stored under the \<^verbatim>\<open>playerId\<close> it carries.\<close>

definition votes_keyed :: "(string \<rightharpoonup> Vote) \<Rightarrow> bool" where
  "votes_keyed m \<longleftrightarrow> (\<forall>k v. m k = Some v \<longrightarrow> v_playerId v = k)"

text \<open>
  An event sequence in which every participant-inserted event carries an id that is not
  in the roster at the moment the event is applied.
\<close>

fun inserts_fresh :: "string \<Rightarrow> change_event list \<Rightarrow> RoomState \<Rightarrow> bool" where
  "inserts_fresh rid [] s = True"
| "inserts_fresh rid (ev # evs) s =
     ((case ev of PlayersInsert r \<Rightarrow> players_id r \<notin> set (map p_id (players s)) | _ \<Rightarrow> True)
      \<and> inserts_fresh rid evs (applyChange rid ev s))"

section \<open>Example inputs\<close>

definition human_row :: "string \<Rightarrow> players_row" where
  "human_row i =
     \<lparr>players_id = i, players_room_id = ''R1'', players_name = i, players_type = HUMAN,
      players_avatar_url = ''https://picsum.photos/100/100?random='' @ i,
      players_persona = None\<rparr>"


definition text_vote :: "string \<Rightarrow> string \<Rightarrow> votes_row" where
  "text_vote i val =
     \<lparr>votes_id = vote_row_id ''R1'' i, votes_room_id = ''R1'', votes_player_id = i,
      votes_value = val, votes_reasoning = None\<rparr>"

definition alice :: Player where
  "alice = player_of_row (human_row ''alice'')"

definition room_in :: "GamePhase \<Rightarrow> RoomState" where
  "room_in ph =
     \<lparr>roomId = ''R1'', story = \<lparr>s_title = ''Login'', s_description = ''''\<rparr>, phase = ph,
      players = [alice], votes = Map.empty\<rparr>"

definition hook_with :: "RoomState \<Rightarrow> HookState" where
  "hook_with rs = \<lparr>currentUser = Some alice, roomState = rs, isProcessingAI = False\<rparr>"

definition hook_in :: "GamePhase \<Rightarrow> HookState" where
  "hook_in ph = hook_with (room_in ph)"

definition two_humans_voted :: RoomState where
  "two_humans_voted =
     applyChanges ''R1''
       [PlayersInsert (human_row ''alice''), PlayersInsert (human_row ''bob''),
        VotesInsert (text_vote ''alice'' ''5''), VotesInsert (text_vote ''bob'' ''8'')]
       initialRoomState"











section \<open>The adapter: snapping and fallbacks\<close>

lemma foldl_closer_first_min:
  fixes p :: "'a::linordered_idom"
  shows "\<exists>pre post. a # xs = pre @ foldl (closer (Some p)) a xs # post
           \<and> (\<forall>m \<in> set pre. \<bar>foldl (closer (Some p)) a xs - p\<bar> < \<bar>m - p\<bar>)
           \<and> (\<forall>m \<in> set post. \<bar>foldl (closer (Some p)) a xs - p\<bar> \<le> \<bar>m - p\<bar>)"
proof (induction xs rule: rev_induct)
  case Nil
  have "a # [] = [] @ a # []" by simp
  then show ?case by fastforce
next
  case (snoc y ys)
  let ?r = "foldl (closer (Some p)) a ys"
  from snoc obtain pre post where
    split: "a # ys = pre @ ?r # post"
    and before: "\<forall>m \<in> set pre. \<bar>?r - p\<bar> < \<bar>m - p\<bar>"
    and after: "\<forall>m \<in> set post. \<bar>?r - p\<bar> \<le> \<bar>m - p\<bar>"
    by blast
  show ?case
  proof (cases "\<bar>y - p\<bar> < \<bar>?r - p\<bar>")
    case True
    then have res: "foldl (closer (Some p)) a (ys @ [y]) = y" by simp
    have "\<forall>m \<in> set (a # ys). \<bar>y - p\<bar> < \<bar>m - p\<bar>"
    proof
      fix m assume "m \<in> set (a # ys)"
      then have "m \<in> set pre \<or> m = ?r \<or> m \<in> set post"
        using split by (metis Un_iff set_ConsD set_append)
      then have "\<bar>?r - p\<bar> \<le> \<bar>m - p\<bar>" using before after by fastforce
      with True show "\<bar>y - p\<bar> < \<bar>m - p\<bar>" by simp
    qed
    moreover have "a # ys @ [y] = (a # ys) @ y # []" by simp
    ultimately show ?thesis unfolding res by (metis empty_iff list.set(1))
  next
    case False
    then have res: "foldl (closer (Some p)) a (ys @ [y]) = ?r" by simp
    have "a # ys @ [y] = pre @ ?r # (post @ [y])" using split by simp
    moreover have "\<forall>m \<in> set (post @ [y]). \<bar>?r - p\<bar> \<le> \<bar>m - p\<bar>"
      using after False by auto
    ultimately show ?thesis unfolding res using before by blast
  qed
qed

lemma foldl_closer_NaN: "foldl (closer None) a xs = a"
  by (induction xs) simp_all

lemma snapPoints_outside:
  fixes x :: "'a::linordered_idom"
  assumes "x \<notin> set validPoints"
  shows "\<exists>v pre post. snapPoints (Some x) = Inr v \<and> validPoints = pre @ v # post
           \<and> (\<forall>m \<in> set pre. \<bar>v - x\<bar> < \<bar>m - x\<bar>)
           \<and> (\<forall>m \<in> set post. \<bar>v - x\<bar> \<le> \<bar>m - x\<bar>)"
proof -
  have vp: "(validPoints :: 'a list) = 1 # [2, 3, 5, 8, 13, 21]" by (simp add: validPoints_def)
  have "snapPoints (Some x) = Inr (foldl (closer (Some x)) 1 [2, 3, 5, 8, 13, 21])"
    using assms by (simp add: snapPoints_def array_includes_def vp del: foldl_Cons)
  then show ?thesis
    using foldl_closer_first_min [of 1 "[2, 3, 5, 8, 13, 21]" x] unfolding vp by metis
qed

lemma snapPoints_in_scale:
  fixes pts :: "'a::linordered_idom option"
  shows "\<exists>v. snapPoints pts = Inr v \<and> v \<in> set validPoints"
proof (cases pts)
  case None
  then show ?thesis by (simp add: snapPoints_def array_includes_def validPoints_def)
next
  case (Some x)
  show ?thesis
  proof (cases "x \<in> set validPoints")
    case True
    then show ?thesis using Some by (simp add: snapPoints_def array_includes_def)
  next
    case False
    from snapPoints_outside [OF False] obtain v pre post
      where "snapPoints (Some x) = Inr v" "(validPoints :: 'a list) = pre @ v # post" by blast
    then show ?thesis using Some by (metis in_set_conv_decomp)
  qed
qed

lemma getClient_env: "JSON_parse (snd (getClient env)) = JSON_parse env"
  by (simp add: getClient_def Let_def split: option.splits)

lemma getClient_Some: "getClient env = (Some cl, env') \<Longrightarrow> JSON_parse env' = JSON_parse env"
  using getClient_env [of env] by simp



lemma generateAiVote_never_throws:
  "\<exists>res. fst (generateAiVote env draw st n r) = Inr res"
  by (simp add: generateAiVote_def Let_def split: prod.splits option.splits sum.splits)

lemma generateAiVote_try_in_scale:
  fixes env :: "'a::linordered_idom adapter_env"
  assumes "generateAiVote_try env cl st n r = Inr res"
  shows "points res \<in> set validPoints"
proof -
  from assms obtain pts rsn p where "snapPoints pts = Inr p" and "res = \<lparr>points = p, reasoning = rsn\<rparr>"
    by (auto simp: generateAiVote_try_def Let_def
        split: reply.splits if_splits option.splits payload.splits sum.splits)
  then show ?thesis using snapPoints_in_scale [of pts] by auto
qed

lemma generateAiVote_points_in_scale:
  fixes env :: "'a::linordered_idom adapter_env"
  shows "\<exists>res. fst (generateAiVote env draw st n r) = Inr res \<and> points res \<in> set validPoints"
proof (cases "trim (s_title st) = '''' \<and> trim (s_description st) = ''''")
  case True
  have "draw mod 7 < 7" by simp
  then have "[1, 2, 3, 5, 8, 13, 21 :: 'a] ! (draw mod 7) \<in> set [1, 2, 3, 5, 8, 13, 21]"
    by (intro nth_mem) simp
  then show ?thesis using True by (simp add: generateAiVote_def validPoints_def)
next
  case False
  obtain c env' where gc: "getClient env = (c, env')" by (cases "getClient env")
  show ?thesis
  proof (cases c)
    case None
    then show ?thesis using False gc by (auto simp: generateAiVote_def validPoints_def)
  next
    case (Some cl)
    show ?thesis
    proof (cases "generateAiVote_try env' cl st n r")
      case (Inl err)
      then show ?thesis using False gc Some by (auto simp: generateAiVote_def validPoints_def)
    next
      case (Inr res)
      then have "points res \<in> set validPoints" by (rule generateAiVote_try_in_scale)
      then show ?thesis using False gc Some Inr by (auto simp: generateAiVote_def)
    qed
  qed
qed

text \<open>
  A payload that parses but has no numeric \<^verbatim>\<open>points\<close> is no failure for the code: every
  comparison of the reduction is false, the first member of the scale is returned, and
  the rationale is whatever the payload had.
\<close>

lemma generateAiVote_no_numeric_points:
  fixes env :: "'a::linordered_idom adapter_env"
  assumes "\<not> (trim (s_title st) = '''' \<and> trim (s_description st) = '''')"
    and "fst (getClient env) = Some cl"
    and "cl (prompt st n r) = Response (Some txt)" and "txt \<noteq> ''''"
    and "JSON_parse env txt = Some (PValue None rsn)"
  shows "fst (generateAiVote env draw st n r) = Inr \<lparr>points = 1, reasoning = rsn\<rparr>"
proof -
  obtain env' where gc: "getClient env = (Some cl, env')"
    using assms(2) by (cases "getClient env") simp
  then have "JSON_parse env' txt = Some (PValue None rsn)"
    using assms(5) getClient_Some by metis
  moreover have "snapPoints (None :: 'a option) = Inr 1"
    by (simp add: snapPoints_def array_includes_def validPoints_def)
  ultimately have "generateAiVote_try env' cl st n r = Inr \<lparr>points = 1, reasoning = rsn\<rparr>"
    using assms(3,4) by (simp add: generateAiVote_try_def or_empty_def)
  then show ?thesis using assms(1) gc by (auto simp: generateAiVote_def)
qed






section \<open>The hook: invariants of the projection\<close>

lemma votes_keyed_empty: "votes_keyed Map.empty"
  by (simp add: votes_keyed_def)

lemma votes_keyed_upd: "votes_keyed m \<Longrightarrow> votes_keyed (m(votes_player_id r \<mapsto> vote_of_row r))"
  by (simp add: votes_keyed_def vote_of_row_def)

lemma votes_keyed_del: "votes_keyed m \<Longrightarrow> votes_keyed (m(k := None))"
  by (simp add: votes_keyed_def)

lemma votes_keyed_filter: "votes_keyed m \<Longrightarrow> votes_keyed (filter_votes d m)"
  by (auto simp: votes_keyed_def filter_votes_def split: option.splits if_splits)

lemma votes_keyed_loaded:
  "votes_keyed m \<Longrightarrow> votes_keyed (foldl (\<lambda>m v. m(votes_player_id v \<mapsto> vote_of_row v)) m rows)"
  by (induction rows arbitrary: m) (simp_all add: votes_keyed_upd)

lemma applyChange_votes_keyed:
  "votes_keyed (votes s) \<Longrightarrow> votes_keyed (votes (applyChange rid ev s))"
  by (cases ev) (simp_all add: votes_keyed_upd votes_keyed_del votes_keyed_filter)

lemma reachable_votes_keyed: "reachable rid s \<Longrightarrow> votes_keyed (votes s)"
proof (induction rule: reachable.induct)
  case reachable_initial
  show ?case by (simp add: initialRoomState_def votes_keyed_empty)
next
  case (reachable_change s ev)
  then show ?case by (simp add: applyChange_votes_keyed)
next
  case (reachable_load_room s roomData ph)
  then show ?case by (simp add: loadRoomData_room_def)
next
  case (reachable_load_players s playersData)
  then show ?case by (simp add: loadRoomData_players_def)
next
  case (reachable_load_votes s votesData)
  show ?case by (simp add: loadRoomData_votes_def votes_keyed_loaded votes_keyed_empty)
next
  case (reachable_updatePhase hs ph)
  then show ?case by (simp add: updatePhase_def votes_keyed_empty)
qed

lemma reachable_applyChanges:
  "reachable rid s \<Longrightarrow> reachable rid (applyChanges rid evs s)"
  unfolding applyChanges_def
  by (induction evs arbitrary: s) (simp_all add: reachable_change)

lemma filter_votes_keyed:
  assumes "votes_keyed m"
  shows "filter_votes p m = m(p := None)"
proof
  fix k
  show "filter_votes p m k = (m(p := None)) k"
    using assms by (cases "m k") (auto simp: filter_votes_def votes_keyed_def)
qed

text \<open>
  C9. On every projection the hook can hold, the participant-deleted event for \<open>p\<close>
  removes the roster entries with id \<open>p\<close> and keeps the others in their order, removes
  the estimate keyed to \<open>p\<close>, and leaves every estimate keyed to another id, the phase,
  the topic and the room id as they were.
\<close>

theorem PlayersDelete_cleanup:
  assumes "reachable rid rs"
  shows "players (applyChange rid (PlayersDelete p) rs) = filter (\<lambda>q. p_id q \<noteq> p) (players rs)
       \<and> (\<forall>q \<in> set (players (applyChange rid (PlayersDelete p) rs)). p_id q \<noteq> p)
       \<and> (\<forall>q \<in> set (players rs). p_id q \<noteq> p
             \<longrightarrow> q \<in> set (players (applyChange rid (PlayersDelete p) rs)))
       \<and> votes (applyChange rid (PlayersDelete p) rs) p = None
       \<and> (\<forall>k. k \<noteq> p \<longrightarrow> votes (applyChange rid (PlayersDelete p) rs) k = votes rs k)
       \<and> phase (applyChange rid (PlayersDelete p) rs) = phase rs
       \<and> story (applyChange rid (PlayersDelete p) rs) = story rs
       \<and> roomId (applyChange rid (PlayersDelete p) rs) = roomId rs"
proof -
  have "votes_keyed (votes rs)" using assms by (rule reachable_votes_keyed)
  then have "filter_votes p (votes rs) = (votes rs)(p := None)" by (rule filter_votes_keyed)
  then show ?thesis by simp
qed

theorem PlayersDelete_cleanup_witness:
  "reachable ''R1'' two_humans_voted
   \<and> map p_id (players two_humans_voted) = [''alice'', ''bob'']
   \<and> votes two_humans_voted ''alice'' \<noteq> None
   \<and> map p_id (players (applyChange ''R1'' (PlayersDelete ''alice'') two_humans_voted)) = [''bob'']
   \<and> votes (applyChange ''R1'' (PlayersDelete ''alice'') two_humans_voted) ''alice'' = None
   \<and> votes (applyChange ''R1'' (PlayersDelete ''alice'') two_humans_voted) ''bob''
       = Some (vote_of_row (text_vote ''bob'' ''8''))"
proof -
  have r: "reachable ''R1'' two_humans_voted"
    unfolding two_humans_voted_def by (intro reachable_applyChanges reachable_initial)
  have pl: "players two_humans_voted
              = [player_of_row (human_row ''alice''), player_of_row (human_row ''bob'')]"
    by (simp add: two_humans_voted_def applyChanges_def initialRoomState_def)
  have ids: "p_id (player_of_row (human_row i)) = i" for i
    by (simp add: player_of_row_def human_row_def)
  have a: "votes two_humans_voted ''alice'' \<noteq> None"
    by (simp add: two_humans_voted_def applyChanges_def text_vote_def)
  have b: "votes two_humans_voted ''bob'' = Some (vote_of_row (text_vote ''bob'' ''8''))"
    by (simp add: two_humans_voted_def applyChanges_def text_vote_def)
  from PlayersDelete_cleanup [OF r, of "''alice''"] r a b show ?thesis
    by (simp add: pl ids)
qed

section \<open>The hook: mutation operations\<close>

text \<open>
  C2. \<^verbatim>\<open>updatePhase\<close> sets the local phase to the phase asked for. Into
  \<^verbatim>\<open>VOTING\<close> it empties the local estimate map, whatever it held, and after the phase
  write it sends the deletion of all vote rows of the room. Into any other phase it
  leaves the estimate map as it was and sends the phase write only. The topic, the
  roster, the room id, the current user and the in-flight flag are never changed.
\<close>

theorem updatePhase_effect:
  "phase (roomState (fst (updatePhase rid nxt hs))) = nxt
   \<and> (nxt = VOTING \<longrightarrow>
        votes (roomState (fst (updatePhase rid nxt hs))) = Map.empty
        \<and> snd (updatePhase rid nxt hs) = [RoomsUpdatePhase rid VOTING, VotesDeleteRoom rid])
   \<and> (nxt \<noteq> VOTING \<longrightarrow>
        votes (roomState (fst (updatePhase rid nxt hs))) = votes (roomState hs)
        \<and> snd (updatePhase rid nxt hs) = [RoomsUpdatePhase rid nxt])
   \<and> story (roomState (fst (updatePhase rid nxt hs))) = story (roomState hs)
   \<and> players (roomState (fst (updatePhase rid nxt hs))) = players (roomState hs)
   \<and> roomId (roomState (fst (updatePhase rid nxt hs))) = roomId (roomState hs)
   \<and> currentUser (fst (updatePhase rid nxt hs)) = currentUser hs
   \<and> isProcessingAI (fst (updatePhase rid nxt hs)) = isProcessingAI hs"
  by (simp add: updatePhase_def)

theorem updatePhase_effect_witness:
  "votes two_humans_voted ''alice'' \<noteq> None
   \<and> phase (roomState (fst (updatePhase ''R1'' VOTING (hook_with two_humans_voted)))) = VOTING
   \<and> votes (roomState (fst (updatePhase ''R1'' VOTING (hook_with two_humans_voted)))) = Map.empty
   \<and> snd (updatePhase ''R1'' VOTING (hook_with two_humans_voted))
       = [RoomsUpdatePhase ''R1'' VOTING, VotesDeleteRoom ''R1'']
   \<and> phase (roomState (fst (updatePhase ''R1'' REVEALED (hook_with two_humans_voted)))) = REVEALED
   \<and> votes (roomState (fst (updatePhase ''R1'' REVEALED (hook_with two_humans_voted))))
       = votes two_humans_voted
   \<and> snd (updatePhase ''R1'' REVEALED (hook_with two_humans_voted))
       = [RoomsUpdatePhase ''R1'' REVEALED]"
proof -
  have a: "votes two_humans_voted ''alice'' \<noteq> None"
    by (simp add: two_humans_voted_def applyChanges_def text_vote_def)
  have rs: "roomState (hook_with two_humans_voted) = two_humans_voted"
    by (simp add: hook_with_def)
  from updatePhase_effect [where rid = "''R1''" and nxt = VOTING and hs = "hook_with two_humans_voted"]
       updatePhase_effect [where rid = "''R1''" and nxt = REVEALED and hs = "hook_with two_humans_voted"]
       a rs
  show ?thesis by simp
qed

text \<open>
  C3 as stated fails: outside \<^verbatim>\<open>VOTING\<close> \<^verbatim>\<open>handleVote\<close> sends no write; and neither
  \<^verbatim>\<open>updateStory\<close> nor \<^verbatim>\<open>handleVote\<close> changes the local projection.
\<close>

theorem mutation_operations_counterexample:
  "snd (handleVote ''R1'' (Num 5) (hook_in SETUP)) = []
   \<and> snd (handleVote ''R1'' (Num 5) (hook_in REVEALED)) = []
   \<and> story (roomState (fst (updateStory ''R1'' \<lparr>s_title = ''Logout'', s_description = ''''\<rparr>
        (hook_in SETUP)))) = \<lparr>s_title = ''Login'', s_description = ''''\<rparr>
   \<and> votes (roomState (fst (handleVote ''R1'' (Num 5) (hook_in VOTING)))) ''alice'' = None"
  by (simp add: handleVote_def updateStory_def hook_in_def hook_with_def room_in_def)

text \<open>
  C3, as amended. \<^verbatim>\<open>updatePhase\<close> updates the local projection at once and sends a
  write. \<^verbatim>\<open>updateStory\<close> and \<^verbatim>\<open>handleVote\<close> leave the hook state as it is;
  \<^verbatim>\<open>updateStory\<close> always sends its write, \<^verbatim>\<open>handleVote\<close> sends its upsert exactly when
  there is a current user and the phase is \<^verbatim>\<open>VOTING\<close>, and nothing otherwise.
\<close>

theorem mutation_operations:
  "phase (roomState (fst (updatePhase rid ph hs))) = ph
   \<and> hd (snd (updatePhase rid ph hs)) = RoomsUpdatePhase rid ph
   \<and> updateStory rid st hs = (hs, [RoomsUpdateStory rid (s_title st) (s_description st)])
   \<and> fst (handleVote rid val hs) = hs
   \<and> (snd (handleVote rid val hs) \<noteq> []
        \<longleftrightarrow> currentUser hs \<noteq> None \<and> phase (roomState hs) = VOTING)
   \<and> (\<forall>u. currentUser hs = Some u \<and> phase (roomState hs) = VOTING \<longrightarrow>
          snd (handleVote rid val hs)
            = [VotesUpsert \<lparr>votes_id = vote_row_id rid (p_id u), votes_room_id = rid,
                            votes_player_id = p_id u, votes_value = toString val,
                            votes_reasoning = None\<rparr>])"
  by (auto simp: updatePhase_def updateStory_def handleVote_def split: option.splits)

theorem mutation_operations_witness:
  "currentUser (hook_in VOTING) = Some alice \<and> phase (roomState (hook_in VOTING)) = VOTING
   \<and> p_id alice = ''alice''
   \<and> handleVote ''R1'' (Str ''?'') (hook_in VOTING)
       = (hook_in VOTING, [VotesUpsert (text_vote ''alice'' ''?'')])
   \<and> phase (roomState (hook_in SETUP)) = SETUP
   \<and> handleVote ''R1'' (Str ''?'') (hook_in SETUP) = (hook_in SETUP, [])"
proof -
  have u: "currentUser (hook_in ph) = Some alice" for ph
    by (simp add: hook_in_def hook_with_def)
  have ph: "phase (roomState (hook_in ph)) = ph" for ph
    by (simp add: hook_in_def hook_with_def room_in_def)
  have i: "p_id alice = ''alice''"
    by (simp add: alice_def player_of_row_def human_row_def)
  from mutation_operations [where rid = "''R1''" and hs = "hook_in VOTING" and val = "Str ''?''"]
       mutation_operations [where rid = "''R1''" and hs = "hook_in SETUP" and val = "Str ''?''"]
       u ph i
  show ?thesis by (simp add: text_vote_def prod_eq_iff)
qed




section \<open>The hook: the roster\<close>

lemma applyChange_distinct_ids:
  assumes "distinct (map p_id (players s))"
    and "case ev of PlayersInsert r \<Rightarrow> players_id r \<notin> set (map p_id (players s)) | _ \<Rightarrow> True"
  shows "distinct (map p_id (players (applyChange rid ev s)))"
  using assms by (cases ev) (simp_all add: player_of_row_def distinct_map_filter)

lemma applyChanges_distinct_ids:
  "distinct (map p_id (players s)) \<Longrightarrow> inserts_fresh rid evs s
     \<Longrightarrow> distinct (map p_id (players (applyChanges rid evs s)))"
proof (induction evs arbitrary: s)
  case Nil
  then show ?case by (simp add: applyChanges_def)
next
  case (Cons ev evs)
  from Cons.prems have "distinct (map p_id (players (applyChange rid ev s)))"
    by (intro applyChange_distinct_ids) simp_all
  moreover from Cons.prems have "inserts_fresh rid evs (applyChange rid ev s)" by simp
  ultimately have "distinct (map p_id (players (applyChanges rid evs (applyChange rid ev s))))"
    by (rule Cons.IH)
  then show ?case by (simp add: applyChanges_def)
qed

text \<open>
  C4 as stated fails: the handler appends without looking at the roster, so the same
  participant-inserted event applied twice leaves two entries with one id.
\<close>

theorem PlayersInsert_appends_counterexample:
  "map p_id (players (applyChanges ''R1''
      [PlayersInsert (human_row ''bob''), PlayersInsert (human_row ''bob'')] initialRoomState))
     = [''bob'', ''bob'']"
  by (simp add: applyChanges_def initialRoomState_def player_of_row_def human_row_def)

text \<open>
  C4, as amended. A participant-inserted event always appends the participant at the end
  of the roster. A roster with pairwise distinct ids keeps them distinct through every
  sequence of events in which each participant-inserted event carries an id that is not
  in the roster when the event is applied.
\<close>

theorem PlayersInsert_appends:
  "players (applyChange rid (PlayersInsert r) prev) = players prev @ [player_of_row r]
   \<and> (distinct (map p_id (players prev)) \<and> inserts_fresh rid evs prev
        \<longrightarrow> distinct (map p_id (players (applyChanges rid evs prev))))"
  using applyChanges_distinct_ids [of prev rid evs] by simp

theorem PlayersInsert_appends_witness:
  "players (applyChange ''R1'' (PlayersInsert (human_row ''bob'')) (room_in SETUP))
     = [alice, player_of_row (human_row ''bob'')]
   \<and> distinct (map p_id (players (room_in SETUP)))
   \<and> inserts_fresh ''R1''
        [PlayersInsert (human_row ''bob''), PlayersDelete ''bob'', PlayersInsert (human_row ''bob'')]
        (room_in SETUP)
   \<and> distinct (map p_id (players (applyChanges ''R1''
        [PlayersInsert (human_row ''bob''), PlayersDelete ''bob'', PlayersInsert (human_row ''bob'')]
        (room_in SETUP))))"
proof -
  have d: "distinct (map p_id (players (room_in SETUP)))"
    by (simp add: room_in_def)
  have f: "inserts_fresh ''R1''
        [PlayersInsert (human_row ''bob''), PlayersDelete ''bob'', PlayersInsert (human_row ''bob'')]
        (room_in SETUP)"
    by (simp add: room_in_def alice_def player_of_row_def human_row_def)
  have p: "players (room_in SETUP) = [alice]"
    by (simp add: room_in_def)
  from PlayersInsert_appends [where rid = "''R1''" and r = "human_row ''bob''" and prev = "room_in SETUP"
      and evs = "[PlayersInsert (human_row ''bob''), PlayersDelete ''bob'',
                  PlayersInsert (human_row ''bob'')]"] d f p
  show ?thesis by simp
qed

section \<open>The hook: the all-voted query\<close>





section \<open>The hook: simulated participants\<close>

declare digits.simps [simp del]














section \<open>The hook: what is written to the store\<close>

lemma digit_char_code: "d < 10 \<Longrightarrow> of_char (digit_char d) = 48 + d"
proof -
  assume "d < 10"
  then have "d \<in> {0, 1, 2, 3, 4, 5, 6, 7, 8, 9}" by auto
  then show ?thesis by (auto simp: digit_char_def)
qed

text \<open>
  \<open>digits\<close> writes a natural number in base ten: reading its characters as decimal
  digits from the left gives the number back.
\<close>

lemma digits_decimal:
  "foldl (\<lambda>acc c. 10 * acc + (of_char c - 48)) 0 (digits n) = n"
proof (induction n rule: digits.induct)
  case (1 n)
  show ?case
  proof (cases "n < 10")
    case True
    then show ?thesis by (simp add: digits.simps [of n] digit_char_code)
  next
    case False
    then have "foldl (\<lambda>acc c. 10 * acc + (of_char c - 48)) 0 (digits (n div 10)) = n div 10"
      using "1.IH" by simp
    then show ?thesis using False by (simp add: digits.simps [of n] digit_char_code)
  qed
qed



end
